theory Spec2Isabelle
  imports Complex_Main "HOL-Library.AList"
begin

section \<open>The ICGEM grid reader of \<open>data/icgem.py\<close>\<close>

text \<open>
  The development embeds \<open>load_icgem_gdf\<close>. The input is the text file as the
  sequence of lines that iterating over the open file yields (each line with its
  newline). Exceptions are values of type \<open>error\<close>; the returned dictionary is an
  association list in insertion order. A character is a code point below 256.
\<close>

subsection \<open>Numbers\<close>

text \<open>
  A float is a finite number, an infinity or \<open>nan\<close>. A finite float is modelled by
  the real number that its literal denotes: rounding to the nearest binary64 number
  and overflow are not modelled, and the two zeros are one value.
\<close>

datatype pyfloat = Finite real | PosInf | NegInf | NaN

text \<open>\<open>-x\<close>\<close>

definition fneg :: "pyfloat \<Rightarrow> pyfloat" where
  "fneg x = (case x of Finite a \<Rightarrow> Finite (- a) | PosInf \<Rightarrow> NegInf | NegInf \<Rightarrow> PosInf
     | NaN \<Rightarrow> NaN)"

text \<open>\<open>x == y\<close>: \<open>nan\<close> is equal to nothing, itself included.\<close>

definition py_eq :: "pyfloat \<Rightarrow> pyfloat \<Rightarrow> bool" where
  "py_eq x y = (x \<noteq> NaN \<and> x = y)"

text \<open>\<open>x <= y\<close>: false when either side is \<open>nan\<close>.\<close>

fun py_le :: "pyfloat \<Rightarrow> pyfloat \<Rightarrow> bool" where
  "py_le NaN y = False"
| "py_le x NaN = False"
| "py_le NegInf y = True"
| "py_le x PosInf = True"
| "py_le (Finite a) (Finite b) = (a \<le> b)"
| "py_le x y = False"

text \<open>The minimum and maximum of two elements as \<open>a.min()\<close> and \<open>a.max()\<close> take
  them: \<open>nan\<close> wins.\<close>

definition fmin :: "pyfloat \<Rightarrow> pyfloat \<Rightarrow> pyfloat" where
  "fmin x y = (if x = NaN \<or> y = NaN then NaN else if py_le x y then x else y)"

definition fmax :: "pyfloat \<Rightarrow> pyfloat \<Rightarrow> pyfloat" where
  "fmax x y = (if x = NaN \<or> y = NaN then NaN else if py_le x y then y else x)"

text \<open>The sign of a float, and \<open>x * y\<close>: an infinity times zero is \<open>nan\<close>.\<close>

definition fsign :: "pyfloat \<Rightarrow> int" where
  "fsign x = (case x of Finite a \<Rightarrow> (if a < 0 then - 1 else if a = 0 then 0 else 1)
     | PosInf \<Rightarrow> 1 | NegInf \<Rightarrow> - 1 | NaN \<Rightarrow> 0)"

definition fmul :: "pyfloat \<Rightarrow> pyfloat \<Rightarrow> pyfloat" where
  "fmul x y = (case (x, y) of
       (Finite a, Finite b) \<Rightarrow> Finite (a * b)
     | _ \<Rightarrow> if x = NaN \<or> y = NaN \<or> fsign x * fsign y = 0 then NaN
            else if fsign x * fsign y < 0 then NegInf else PosInf)"

subsection \<open>Exceptions\<close>

text \<open>The values that the dictionary holds.\<close>

datatype pyval =
    Shape "int option \<times> int option"
  | Area "pyfloat option list"
  | Metadata string
  | Column "pyfloat list"
  | Scalar pyfloat

text \<open>The text of each \<open>assert\<close> of the sanity checks, with the values it formats.\<close>

datatype assert_msg =
    CouldntReadShape
  | CouldntReadSize
  | ShapeSizeMismatch "int \<times> int" int
  | CouldntReadColumnNames
  | AttrColMismatch nat nat
  | CouldntReadArea
  | AreaMismatch pyval "pyfloat list"

datatype error =
    AssertionError assert_msg
  | NameError string
  | IndexError
  | KeyError string
  | TypeError
  | ValueError

subsection \<open>Strings: \<open>str.strip\<close>, \<open>str.split\<close>, \<open>int\<close>, \<open>float\<close>\<close>

text \<open>The characters below 256 for which \<open>str.isspace\<close> holds: 9 to 13, 28 to 32,
  133 (next line) and 160 (no-break space).\<close>

definition whitespace :: string where
  "whitespace = [CHR 0x09, CHR 0x0A, CHR 0x0B, CHR 0x0C, CHR 0x0D,
                 CHR 0x1C, CHR 0x1D, CHR 0x1E, CHR 0x1F, CHR 0x20,
                 CHR 0x85, CHR 0xA0]"

definition is_space :: "char \<Rightarrow> bool" where
  "is_space c = (c \<in> set whitespace)"

text \<open>\<open>s.strip()\<close>\<close>

definition strip :: "string \<Rightarrow> string" where
  "strip s = rev (dropWhile is_space (rev (dropWhile is_space s)))"

text \<open>\<open>s.split()\<close>: the maximal runs of non-whitespace characters, in order. The
  first argument is the run being read, reversed.\<close>

fun split_run :: "string \<Rightarrow> string \<Rightarrow> string list" where
  "split_run run [] = (if run = [] then [] else [rev run])"
| "split_run run (c # cs) =
     (if is_space c then (if run = [] then split_run [] cs else rev run # split_run [] cs)
      else split_run (c # run) cs)"

definition split :: "string \<Rightarrow> string list" where
  "split s = split_run [] s"

definition is_digit :: "char \<Rightarrow> bool" where
  "is_digit c = (c \<in> set ''0123456789'')"

definition digit_value :: "char \<Rightarrow> nat" where
  "digit_value c = of_char c - 48"

text \<open>The digits of a digit part: decimal digits with single underscores between
  them. The flag tells whether the character in front was a digit.\<close>

fun digitpart :: "bool \<Rightarrow> string \<Rightarrow> string option" where
  "digitpart prev [] = (if prev then Some [] else None)"
| "digitpart prev (c # cs) =
     (if is_digit c then map_option ((#) c) (digitpart True cs)
      else if c = CHR ''_'' \<and> prev then digitpart False cs
      else None)"

text \<open>The number that a string of digits denotes.\<close>

definition number :: "string \<Rightarrow> nat" where
  "number ds = foldl (\<lambda>a c. 10 * a + digit_value c) 0 ds"

definition digits :: "string \<Rightarrow> nat option" where
  "digits s = map_option number (digitpart False s)"

text \<open>An optional sign in front of \<open>s\<close>: the sign and the rest.\<close>

definition sign_split :: "string \<Rightarrow> bool \<times> string" where
  "sign_split s = (case s of [] \<Rightarrow> (False, [])
     | c # cs \<Rightarrow> if c = CHR ''-'' then (True, cs)
                else if c = CHR ''+'' then (False, cs) else (False, s))"

text \<open>\<open>int(s)\<close> on a token: an optional sign and a digit part; anything else
  raises \<open>ValueError\<close> (here \<open>None\<close>).\<close>

definition py_int :: "string \<Rightarrow> int option" where
  "py_int s = (case sign_split s of (neg, ds) \<Rightarrow>
     (case digits ds of None \<Rightarrow> None
      | Some n \<Rightarrow> Some (if neg then - int n else int n)))"

text \<open>The digits on one side of the decimal point: none, or a digit part.\<close>

definition side :: "string \<Rightarrow> string option" where
  "side s = (if s = [] then Some [] else digitpart False s)"

text \<open>The mantissa of a decimal literal: a digit part, an optional point, a digit
  part, with at least one of the two parts.\<close>

definition mantissa :: "string \<Rightarrow> real option" where
  "mantissa s =
     (let ip = takeWhile (\<lambda>c. c \<noteq> CHR ''.'') s;
          fp = drop 1 (dropWhile (\<lambda>c. c \<noteq> CHR ''.'') s)
      in if ip = [] \<and> fp = [] then None
         else (case (side ip, side fp) of
                 (Some i, Some f) \<Rightarrow> Some (real (number i) + real (number f) / 10 ^ length f)
               | _ \<Rightarrow> None))"

definition is_exp_mark :: "char \<Rightarrow> bool" where
  "is_exp_mark c = (c = CHR ''e'' \<or> c = CHR ''E'')"

text \<open>An ASCII letter in lower case.\<close>

definition lower :: "char \<Rightarrow> char" where
  "lower c = (if c \<in> set ''ABCDEFGHIJKLMNOPQRSTUVWXYZ'' then char_of (of_char c + (32::nat))
              else c)"

text \<open>\<open>float(s)\<close> on a token: an optional sign in front of \<open>inf\<close>, \<open>infinity\<close> or
  \<open>nan\<close> in any case, or of a mantissa with an optional decimal exponent; anything
  else raises \<open>ValueError\<close> (here \<open>None\<close>).\<close>

definition py_float :: "string \<Rightarrow> pyfloat option" where
  "py_float s = (case sign_split s of (neg, body) \<Rightarrow>
     (let word = map lower body;
          ms = takeWhile (\<lambda>c. \<not> is_exp_mark c) body;
          es = dropWhile (\<lambda>c. \<not> is_exp_mark c) body
      in if word = ''inf'' \<or> word = ''infinity'' then Some (if neg then NegInf else PosInf)
         else if word = ''nan'' then Some NaN
         else (case mantissa ms of None \<Rightarrow> None
           | Some m \<Rightarrow>
              (let v = (if neg then - m else m)
               in if es = [] then Some (Finite v)
                  else (case py_int (drop 1 es) of None \<Rightarrow> None
                        | Some e \<Rightarrow>
                            Some (Finite (if e < 0 then v / 10 ^ nat (- e)
                                          else v * 10 ^ nat e)))))))"

subsection \<open>The header loop (lines 26 to 61)\<close>

text \<open>The local variables of the header loop. \<open>gridsize\<close> is the source's \<open>size\<close>.\<close>

record header =
  metadata :: "string list"
  shape :: "int option \<times> int option"
  gridsize :: "int option"
  height :: "pyfloat option"
  attributes :: "string list option"
  attr_line :: bool
  area :: "pyfloat option list"

definition header0 :: header where
  "header0 = \<lparr>metadata = [], shape = (None, None), gridsize = None, height = None,
              attributes = None, attr_line = False, area = replicate 4 None\<rparr>"

text \<open>\<open>line.strip()[:11] == 'end_of_head'\<close>\<close>

definition is_end_of_head :: "string \<Rightarrow> bool" where
  "is_end_of_head line = (take 11 (strip line) = ''end_of_head'')"

text \<open>\<open>float(parts[1])\<close> and \<open>int(parts[1])\<close>: the index is evaluated first.\<close>

definition float_arg :: "string list \<Rightarrow> error + pyfloat" where
  "float_arg parts = (case parts of _ # v # _ \<Rightarrow>
       (case py_float v of None \<Rightarrow> Inl ValueError | Some x \<Rightarrow> Inr x)
     | _ \<Rightarrow> Inl IndexError)"

definition int_arg :: "string list \<Rightarrow> error + int" where
  "int_arg parts = (case parts of _ # v # _ \<Rightarrow>
       (case py_int v of None \<Rightarrow> Inl ValueError | Some x \<Rightarrow> Inr x)
     | _ \<Rightarrow> Inl IndexError)"

text \<open>The \<open>if\<close>/\<open>elif\<close> chain on \<open>parts[0]\<close> (lines 42 to 58).\<close>

definition key_value :: "header \<Rightarrow> string list \<Rightarrow> error + header" where
  "key_value h parts = (case parts of [] \<Rightarrow> Inl IndexError
     | key # _ \<Rightarrow>
       if key = ''height_over_ell'' then
         (case float_arg parts of Inl e \<Rightarrow> Inl e | Inr v \<Rightarrow> Inr (h\<lparr>height := Some v\<rparr>))
       else if key = ''latitude_parallels'' then
         (case int_arg parts of Inl e \<Rightarrow> Inl e
          | Inr v \<Rightarrow> Inr (h\<lparr>shape := (Some v, snd (shape h))\<rparr>))
       else if key = ''longitude_parallels'' then
         (case int_arg parts of Inl e \<Rightarrow> Inl e
          | Inr v \<Rightarrow> Inr (h\<lparr>shape := (fst (shape h), Some v)\<rparr>))
       else if key = ''number_of_gridpoints'' then
         (case int_arg parts of Inl e \<Rightarrow> Inl e | Inr v \<Rightarrow> Inr (h\<lparr>gridsize := Some v\<rparr>))
       else if key = ''latlimit_south'' then
         (case float_arg parts of Inl e \<Rightarrow> Inl e
          | Inr v \<Rightarrow> Inr (h\<lparr>area := (area h)[0 := Some v]\<rparr>))
       else if key = ''latlimit_north'' then
         (case float_arg parts of Inl e \<Rightarrow> Inl e
          | Inr v \<Rightarrow> Inr (h\<lparr>area := (area h)[1 := Some v]\<rparr>))
       else if key = ''longlimit_west'' then
         (case float_arg parts of Inl e \<Rightarrow> Inl e
          | Inr v \<Rightarrow> Inr (h\<lparr>area := (area h)[2 := Some v]\<rparr>))
       else if key = ''longlimit_east'' then
         (case float_arg parts of Inl e \<Rightarrow> Inl e
          | Inr v \<Rightarrow> Inr (h\<lparr>area := (area h)[3 := Some v]\<rparr>))
       else Inr h)"

text \<open>The loop body after the \<open>end_of_head\<close> test (lines 37 to 61).\<close>

definition header_line :: "header \<Rightarrow> string \<Rightarrow> error + header" where
  "header_line h line =
     (let h1 = h\<lparr>metadata := metadata h @ [line]\<rparr>
      in if strip line = [] then Inr (h1\<lparr>attr_line := True\<rparr>)
         else if \<not> attr_line h1 then key_value h1 (split (strip line))
         else Inr (h1\<lparr>attributes := Some (split (strip line)), attr_line := False\<rparr>))"

text \<open>The \<open>for\<close> loop over the file (lines 34 to 61). It returns the variables and
  the lines left in the file: those after the \<open>end_of_head\<close> line, or none when the
  file is exhausted.\<close>

fun read_header :: "header \<Rightarrow> string list \<Rightarrow> error + header \<times> string list" where
  "read_header h [] = Inr (h, [])"
| "read_header h (line # rest) =
     (if is_end_of_head line then Inr (h, rest)
      else (case header_line h line of Inl e \<Rightarrow> Inl e
            | Inr h' \<Rightarrow> read_header h' rest))"

text \<open>The loop body over a sequence of lines that holds no \<open>end_of_head\<close> line:
  what the loop does to the lines in front of the terminating one.\<close>

fun header_lines :: "header \<Rightarrow> string list \<Rightarrow> error + header" where
  "header_lines h [] = Inr h"
| "header_lines h (line # rest) =
     (case header_line h line of Inl e \<Rightarrow> Inl e | Inr h' \<Rightarrow> header_lines h' rest)"

subsection \<open>The numeric body: \<open>np.loadtxt(gdf_file, ndmin=2, unpack=True)\<close>\<close>

text \<open>One line of the body: the text before the first \<open>#\<close>, split at whitespace,
  each token converted with \<open>float\<close> (hexadecimal literals are not covered).\<close>

fun floats :: "string list \<Rightarrow> error + pyfloat list" where
  "floats [] = Inr []"
| "floats (t # ts) = (case py_float t of None \<Rightarrow> Inl ValueError
     | Some x \<Rightarrow> (case floats ts of Inl e \<Rightarrow> Inl e | Inr xs \<Rightarrow> Inr (x # xs)))"

definition loadtxt_line :: "string \<Rightarrow> error + pyfloat list" where
  "loadtxt_line line = floats (split (takeWhile (\<lambda>c. c \<noteq> CHR ''#'') line))"

text \<open>The rows of the file; lines without a token are skipped.\<close>

fun loadtxt_rows :: "string list \<Rightarrow> error + pyfloat list list" where
  "loadtxt_rows [] = Inr []"
| "loadtxt_rows (line # rest) = (case loadtxt_line line of Inl e \<Rightarrow> Inl e
     | Inr row \<Rightarrow> (case loadtxt_rows rest of Inl e \<Rightarrow> Inl e
         | Inr rows \<Rightarrow> Inr (if row = [] then rows else row # rows)))"

text \<open>\<open>unpack=True\<close> transposes: one row per column of the file.\<close>

definition unpack :: "pyfloat list list \<Rightarrow> pyfloat list list" where
  "unpack rows = map (\<lambda>j. map (\<lambda>row. row ! j) rows) [0..<length (hd rows)]"

text \<open>Rows of different lengths raise \<open>ValueError\<close>. A body without data gives an
  array of shape (1, 0): one row of length 0.\<close>

definition loadtxt :: "string list \<Rightarrow> error + pyfloat list list" where
  "loadtxt body = (case loadtxt_rows body of Inl e \<Rightarrow> Inl e
     | Inr rows \<Rightarrow>
        if rows = [] then Inr [[]]
        else if \<not> list_all (\<lambda>row. length row = length (hd rows)) rows then Inl ValueError
        else Inr (unpack rows))"

subsection \<open>Packaging the columns (lines 66 to 75)\<close>

text \<open>\<open>value.reshape(shape)\<close> on a one-dimensional array, as its rows. A \<open>None\<close>
  in the shape raises \<open>TypeError\<close>. A negative dimension is the unknown one and is
  inferred from the length; two of them, or a length that does not fit, raise
  \<open>ValueError\<close>.\<close>

definition rows_of :: "nat \<Rightarrow> nat \<Rightarrow> 'a list \<Rightarrow> 'a list list" where
  "rows_of r c v = map (\<lambda>i. take c (drop (i * c) v)) [0..<r]"

definition reshape :: "'a list \<Rightarrow> int option \<times> int option \<Rightarrow> error + 'a list list" where
  "reshape v sh = (case sh of
       (Some a, Some b) \<Rightarrow>
         (let n = int (length v) in
          if a < 0 \<and> b < 0 then Inl ValueError
          else if a < 0 then
            (if b = 0 \<or> n mod b \<noteq> 0 then Inl ValueError
             else Inr (rows_of (nat (n div b)) (nat b) v))
          else if b < 0 then
            (if a = 0 \<or> n mod a \<noteq> 0 then Inl ValueError
             else Inr (rows_of (nat a) (nat (n div a)) v))
          else if a * b \<noteq> n then Inl ValueError
          else Inr (rows_of (nat a) (nat b) v))
     | _ \<Rightarrow> Inl TypeError)"

text \<open>\<open>value.reshape(shape)[::-1].ravel()\<close>\<close>

definition flipped :: "'a list \<Rightarrow> int option \<times> int option \<Rightarrow> error + 'a list" where
  "flipped v sh = (case reshape v sh of Inl e \<Rightarrow> Inl e | Inr rows \<Rightarrow> Inr (concat (rev rows)))"

text \<open>The dictionary \<open>data\<close>, in insertion order.\<close>

type_synonym data = "(string \<times> pyval) list"

text \<open>\<open>dict(shape=shape, area=area, metadata=''.join(metadata))\<close>\<close>

definition data0 :: "header \<Rightarrow> data" where
  "data0 h = [(''shape'', Shape (shape h)), (''area'', Area (area h)),
              (''metadata'', Metadata (concat (metadata h)))]"

text \<open>The loop over \<open>zip(attributes, rawdata)\<close> (lines 69 to 73).\<close>

fun package :: "data \<Rightarrow> (string \<times> pyfloat list) list \<Rightarrow> int option \<times> int option \<Rightarrow> error + data" where
  "package d [] sh = Inr d"
| "package d ((attr, v) # rest) sh = (case flipped v sh of Inl e \<Rightarrow> Inl e
     | Inr col \<Rightarrow> package (AList.update attr (Column col) d) rest sh)"

text \<open>\<open>np.ones(size)\<close>: a negative size raises \<open>ValueError\<close>; \<open>None\<close> is the empty
  shape, whose array is a scalar.\<close>

definition ones :: "int option \<Rightarrow> error + pyval" where
  "ones n = (case n of None \<Rightarrow> Inr (Scalar (Finite 1))
     | Some k \<Rightarrow> if k < 0 then Inl ValueError
                else Inr (Column (replicate (nat k) (Finite 1))))"

text \<open>\<open>height*a\<close>\<close>

definition scale :: "pyfloat \<Rightarrow> pyval \<Rightarrow> pyval" where
  "scale x a = (case a of Column xs \<Rightarrow> Column (map (fmul x) xs)
     | Scalar y \<Rightarrow> Scalar (fmul x y) | _ \<Rightarrow> a)"

text \<open>Lines 74 and 75.\<close>

definition add_height :: "data \<Rightarrow> pyfloat option \<Rightarrow> int option \<Rightarrow> error + data" where
  "add_height d hgt n = (case hgt of None \<Rightarrow> Inr d
     | Some x \<Rightarrow> (case ones n of Inl e \<Rightarrow> Inl e
         | Inr a \<Rightarrow> Inr (AList.update ''h_over_ellipsoid'' (scale x a) d)))"

text \<open>Lines 24 to 75: the header variables, \<open>rawdata\<close> and \<open>data\<close> before the sanity
  checks. \<open>zip\<close> over \<open>attributes = None\<close> raises \<open>TypeError\<close>.\<close>

definition build_data :: "string list \<Rightarrow> error + header \<times> pyfloat list list \<times> data" where
  "build_data gdf_file = (case read_header header0 gdf_file of Inl e \<Rightarrow> Inl e
     | Inr (h, body) \<Rightarrow>
       (case loadtxt body of Inl e \<Rightarrow> Inl e
        | Inr rawdata \<Rightarrow>
          (case attributes h of None \<Rightarrow> Inl TypeError
           | Some attrs \<Rightarrow>
             (case package (data0 h) (zip attrs rawdata) (shape h) of Inl e \<Rightarrow> Inl e
              | Inr d \<Rightarrow>
                (case add_height d (height h) (gridsize h) of Inl e \<Rightarrow> Inl e
                 | Inr d' \<Rightarrow> Inr (h, rawdata, d'))))))"

subsection \<open>The sanity checks (lines 77 to 97)\<close>

text \<open>The name \<open>usecols\<close> of line 84 is neither a parameter nor a local variable of
  \<open>load_icgem_gdf\<close>, so it is looked up in the module's namespace when line 84 runs.
  The module never binds it: as the module stands the name is \<open>Unbound\<close> and the
  lookup raises \<open>NameError\<close>. \<open>Bound\<close> is the namespace with a value for it: \<open>None\<close>
  or a list of indices.\<close>

datatype usecols = Unbound | Bound "int list option"

text \<open>\<open>attributes[i]\<close>; a negative index counts from the end.\<close>

definition item :: "string list \<Rightarrow> int \<Rightarrow> error + string" where
  "item xs i =
     (if 0 \<le> i \<and> i < int (length xs) then Inr (xs ! nat i)
      else if i < 0 \<and> - i \<le> int (length xs) then Inr (xs ! nat (int (length xs) + i))
      else Inl IndexError)"

fun items :: "string list \<Rightarrow> int list \<Rightarrow> error + string list" where
  "items xs [] = Inr []"
| "items xs (i # is) = (case item xs i of Inl e \<Rightarrow> Inl e
     | Inr x \<Rightarrow> (case items xs is of Inl e \<Rightarrow> Inl e | Inr ys \<Rightarrow> Inr (x # ys)))"

text \<open>Lines 84 and 85.\<close>

definition select_columns :: "usecols \<Rightarrow> string list \<Rightarrow> error + string list" where
  "select_columns u attrs = (case u of Unbound \<Rightarrow> Inl (NameError ''usecols'')
     | Bound None \<Rightarrow> Inr attrs
     | Bound (Some idx) \<Rightarrow> items attrs idx)"

text \<open>\<open>a.min()\<close> and \<open>a.max()\<close>; an empty array raises \<open>ValueError\<close>.\<close>

definition amin :: "pyfloat list \<Rightarrow> error + pyfloat" where
  "amin xs = (case xs of [] \<Rightarrow> Inl ValueError | x # ys \<Rightarrow> Inr (fold fmin ys x))"

definition amax :: "pyfloat list \<Rightarrow> error + pyfloat" where
  "amax xs = (case xs of [] \<Rightarrow> Inl ValueError | x # ys \<Rightarrow> Inr (fold fmax ys x))"

text \<open>\<open>np.allclose(a, b)\<close> with its default tolerances: for every pair of finite
  elements \<open>|a - b| \<le> atol + rtol * |b|\<close>, and \<open>a == b\<close> for every other pair. An
  array of length 1 is broadcast; other lengths that differ raise \<open>ValueError\<close>.\<close>

definition rtol :: real where
  "rtol = 1 / 10 ^ 5"

definition atol :: real where
  "atol = 1 / 10 ^ 8"

definition isclose :: "pyfloat \<Rightarrow> pyfloat \<Rightarrow> bool" where
  "isclose x y = (case (x, y) of
       (Finite a, Finite b) \<Rightarrow> \<bar>a - b\<bar> \<le> atol + rtol * \<bar>b\<bar>
     | _ \<Rightarrow> py_eq x y)"

definition allclose :: "pyfloat list \<Rightarrow> pyval \<Rightarrow> error + bool" where
  "allclose a v = (case v of
       Area bs \<Rightarrow>
         (if \<not> list_all (\<lambda>b. b \<noteq> None) bs then Inl TypeError
          else if length bs \<noteq> length a then Inl ValueError
          else Inr (list_all (\<lambda>(x, y). isclose x y) (zip a (map the bs))))
     | Column bs \<Rightarrow>
         (if length bs = length a then Inr (list_all (\<lambda>(x, y). isclose x y) (zip a bs))
          else if length bs = 1 then Inr (list_all (\<lambda>x. isclose x (hd bs)) a)
          else Inl ValueError)
     | _ \<Rightarrow> Inl TypeError)"

text \<open>\<open>data[key]\<close>\<close>

definition lookup :: "data \<Rightarrow> string \<Rightarrow> error + pyval" where
  "lookup d key = (case map_of d key of None \<Rightarrow> Inl (KeyError key) | Some v \<Rightarrow> Inr v)"

text \<open>The minimum or maximum of \<open>data[key]\<close>.\<close>

definition bound_of :: "(pyfloat list \<Rightarrow> error + pyfloat) \<Rightarrow> pyval \<Rightarrow> error + pyfloat" where
  "bound_of f v = (case v of Column xs \<Rightarrow> f xs | _ \<Rightarrow> Inl TypeError)"

text \<open>Lines 91 to 95.\<close>

definition area_check :: "data \<Rightarrow> error + data" where
  "area_check d =
     (case lookup d ''latitude'' of Inl e \<Rightarrow> Inl e | Inr lat \<Rightarrow>
     (case lookup d ''longitude'' of Inl e \<Rightarrow> Inl e | Inr lon \<Rightarrow>
     (case bound_of amin lat of Inl e \<Rightarrow> Inl e | Inr lat_min \<Rightarrow>
     (case bound_of amax lat of Inl e \<Rightarrow> Inl e | Inr lat_max \<Rightarrow>
     (case bound_of amin lon of Inl e \<Rightarrow> Inl e | Inr lon_min \<Rightarrow>
     (case bound_of amax lon of Inl e \<Rightarrow> Inl e | Inr lon_max \<Rightarrow>
     (case lookup d ''area'' of Inl e \<Rightarrow> Inl e | Inr declared \<Rightarrow>
     (case allclose [lat_min, lat_max, lon_min, lon_max] declared of Inl e \<Rightarrow> Inl e
      | Inr ok \<Rightarrow>
          if ok then Inr d
          else Inl (AssertionError
                 (AreaMismatch declared [lat_min, lat_max, lon_min, lon_max]))))))))))"

text \<open>Lines 78 to 97.\<close>

definition sanity_checks :: "usecols \<Rightarrow> header \<Rightarrow> pyfloat list list \<Rightarrow> data \<Rightarrow> error + data" where
  "sanity_checks u h rawdata d = (case shape h of
       (Some s0, Some s1) \<Rightarrow>
         (case gridsize h of None \<Rightarrow> Inl (AssertionError CouldntReadSize)
          | Some n \<Rightarrow>
            if s0 * s1 \<noteq> n then Inl (AssertionError (ShapeSizeMismatch (s0, s1) n))
            else (case attributes h of None \<Rightarrow> Inl (AssertionError CouldntReadColumnNames)
              | Some attrs \<Rightarrow>
                (case select_columns u attrs of Inl e \<Rightarrow> Inl e
                 | Inr sel \<Rightarrow>
                   if length sel \<noteq> length rawdata
                   then Inl (AssertionError (AttrColMismatch (length sel) (length rawdata)))
                   else if \<not> list_all (\<lambda>i. i \<noteq> None) (area h)
                   then Inl (AssertionError CouldntReadArea)
                   else if ''latitude'' \<in> set sel \<and> ''longitude'' \<in> set sel
                   then area_check d
                   else Inr d)))
     | _ \<Rightarrow> Inl (AssertionError CouldntReadShape))"

text \<open>The whole function. The first argument is the binding of the global name
  \<open>usecols\<close> at the time of the call, the second the lines of the file.\<close>

definition load_icgem_gdf :: "usecols \<Rightarrow> string list \<Rightarrow> error + data" where
  "load_icgem_gdf u gdf_file = (case build_data gdf_file of Inl e \<Rightarrow> Inl e
     | Inr (h, rawdata, d) \<Rightarrow> sanity_checks u h rawdata d)"

text \<open>The header text of line 68, \<open>''.join(metadata)\<close>, as the loop leaves it.\<close>

definition header_text :: "string list \<Rightarrow> error + string" where
  "header_text gdf_file = (case read_header header0 gdf_file of Inl e \<Rightarrow> Inl e
     | Inr (h, body) \<Rightarrow> Inr (concat (metadata h)))"

subsection \<open>Example files\<close>

text \<open>A grid of two parallels and two meridians with three attributes. The body
  has one line per grid point, from north to south, and one value per attribute.\<close>

definition minimal_gdf :: "string list" where
  "minimal_gdf =
     [''latitude_parallels 2\<newline>'', ''longitude_parallels 2\<newline>'',
      ''number_of_gridpoints 4\<newline>'',
      ''latlimit_south 0\<newline>'', ''latlimit_north 1\<newline>'',
      ''longlimit_west 0\<newline>'', ''longlimit_east 1\<newline>'',
      ''\<newline>'',
      ''latitude longitude gravity\<newline>'',
      ''end_of_head ====\<newline>'',
      ''1 0 9.8\<newline>'', ''1 1 9.7\<newline>'', ''0 0 9.6\<newline>'', ''0 1 9.5\<newline>'']"

text \<open>The header variables and \<open>rawdata\<close> of the minimal file.\<close>

definition minimal_header :: header where
  "minimal_header =
     \<lparr>metadata = take 9 minimal_gdf, shape = (Some 2, Some 2), gridsize = Some 4,
      height = None, attributes = Some [''latitude'', ''longitude'', ''gravity''],
      attr_line = False, area = map (Some \<circ> Finite) [0, 1, 0, 1]\<rparr>"

definition minimal_rawdata :: "pyfloat list list" where
  "minimal_rawdata =
     map (map Finite) [[1, 1, 0, 0], [0, 1, 0, 1], [49 / 5, 97 / 10, 48 / 5, 19 / 2]]"

text \<open>The same header over a body of three lines of four values.\<close>

definition three_lines_gdf :: "string list" where
  "three_lines_gdf = take 10 minimal_gdf @
     [''1 1 0 0\<newline>'', ''0 1 0 1\<newline>'', ''9.8 9.7 9.6 9.5\<newline>'']"

text \<open>The minimal file with the southern limit of the header moved by 1.\<close>

definition perturbed_gdf :: "string list" where
  "perturbed_gdf = minimal_gdf[3 := ''latlimit_south 1\<newline>'']"

text \<open>The minimal file with only two values on each line of the body.\<close>

definition two_rows_gdf :: "string list" where
  "two_rows_gdf = take 10 minimal_gdf @
     [''1 0\<newline>'', ''1 1\<newline>'', ''0 0\<newline>'', ''0 1\<newline>'']"

text \<open>A header of one key line.\<close>

definition short_gdf :: "string list" where
  "short_gdf = [''latitude_parallels 2\<newline>'', ''end_of_head\<newline>'', ''1\<newline>'']"

text \<open>The minimal file declaring five grid points, over its body of four lines
  and over a body of five.\<close>

definition size5_gdf :: "string list" where
  "size5_gdf = minimal_gdf[2 := ''number_of_gridpoints 5\<newline>'']"

definition mismatch_gdf :: "string list" where
  "mismatch_gdf = size5_gdf @ [''0 1 9.4\<newline>'']"

text \<open>A grid of one parallel and two meridians whose attribute line names \<open>g\<close> twice.\<close>

definition duplicate_gdf :: "string list" where
  "duplicate_gdf =
     [''latitude_parallels 1\<newline>'', ''longitude_parallels 2\<newline>'',
      ''number_of_gridpoints 2\<newline>'',
      ''latlimit_south 0\<newline>'', ''latlimit_north 0\<newline>'',
      ''longlimit_west 0\<newline>'', ''longlimit_east 1\<newline>'',
      ''\<newline>'',
      ''g g\<newline>'',
      ''end_of_head\<newline>'',
      ''1 2\<newline>'', ''3 4\<newline>'']"

text \<open>A header with two attribute lines, the second after two blank lines.\<close>

definition two_pairs_gdf :: "string list" where
  "two_pairs_gdf =
     [''\<newline>'', ''a b\<newline>'', ''latitude_parallels 2\<newline>'', ''\<newline>'', ''  \<newline>'',
      ''x y z\<newline>'', ''number_of_gridpoints 4\<newline>'', ''end_of_head\<newline>'']"

text \<open>The minimal file without its \<open>number_of_gridpoints\<close> line, and the same
  without the last line of the body.\<close>

definition no_size_gdf :: "string list" where
  "no_size_gdf = take 2 minimal_gdf @ drop 3 minimal_gdf"

definition no_size_short_gdf :: "string list" where
  "no_size_short_gdf = butlast no_size_gdf"



text \<open>The minimal file with the height \<open>nan\<close> in front.\<close>

definition nan_gdf :: "string list" where
  "nan_gdf = ''height_over_ell nan\<newline>'' # minimal_gdf"

text \<open>A grid of three parallels and two meridians, from north to south.\<close>

definition bands_gdf :: "string list" where
  "bands_gdf =
     [''latitude_parallels 3\<newline>'', ''longitude_parallels 2\<newline>'',
      ''number_of_gridpoints 6\<newline>'',
      ''latlimit_south 0\<newline>'', ''latlimit_north 2\<newline>'',
      ''longlimit_west 0\<newline>'', ''longlimit_east 1\<newline>'',
      ''\<newline>'',
      ''latitude longitude\<newline>'',
      ''end_of_head\<newline>'',
      ''2 0\<newline>'', ''2 1\<newline>'', ''1 0\<newline>'', ''1 1\<newline>'', ''0 0\<newline>'', ''0 1\<newline>'']"

section \<open>Properties\<close>

subsection \<open>The header loop\<close>

lemma key_value_frame:
  assumes "key_value h parts = Inr h'"
  shows "metadata h' = metadata h" and "attr_line h' = attr_line h"
    and "attributes h' = attributes h"
  using assms
  by (auto simp: key_value_def split: list.splits if_splits sum.splits)

lemma header_line_metadata:
  "header_line h line = Inr h' \<Longrightarrow> metadata h' = metadata h @ [line]"
  by (auto simp: header_line_def Let_def split: if_splits dest: key_value_frame(1))

lemma read_header_header_lines:
  "read_header h0 f = Inr (h, body) \<Longrightarrow>
     header_lines h0 (takeWhile (\<lambda>l. \<not> is_end_of_head l) f) = Inr h \<and>
     body = drop 1 (dropWhile (\<lambda>l. \<not> is_end_of_head l) f)"
  by (induction f arbitrary: h0) (auto split: if_splits sum.splits)

lemma header_lines_metadata:
  "header_lines h0 ls = Inr h \<Longrightarrow> metadata h = metadata h0 @ ls"
  by (induction ls arbitrary: h0) (auto split: sum.splits dest: header_line_metadata)

lemma header_lines_append:
  "header_lines h (xs @ ys) =
     (case header_lines h xs of Inl e \<Rightarrow> Inl e | Inr h' \<Rightarrow> header_lines h' ys)"
  by (induction xs arbitrary: h) (auto split: sum.splits)

lemma header_line_blank:
  "strip line = [] \<Longrightarrow>
     header_line h line = Inr (h\<lparr>metadata := metadata h @ [line], attr_line := True\<rparr>)"
  by (simp add: header_line_def)

lemma header_line_attributes:
  "strip line \<noteq> [] \<Longrightarrow> attr_line h \<Longrightarrow>
     header_line h line =
       Inr (h\<lparr>metadata := metadata h @ [line], attributes := Some (split (strip line)),
              attr_line := False\<rparr>)"
  by (simp add: header_line_def)

lemma header_line_key:
  "strip line \<noteq> [] \<Longrightarrow> \<not> attr_line h \<Longrightarrow> header_line h line = Inr h' \<Longrightarrow>
     attributes h' = attributes h \<and> \<not> attr_line h'"
  by (auto simp: header_line_def dest: key_value_frame)

lemma header_lines_keys:
  "header_lines h ps = Inr h' \<Longrightarrow> \<not> attr_line h \<Longrightarrow> \<forall>p\<in>set ps. strip p \<noteq> [] \<Longrightarrow>
     attributes h' = attributes h \<and> \<not> attr_line h'"
proof (induction ps arbitrary: h)
  case Nil
  then show ?case by simp
next
  case (Cons p ps)
  from Cons.prems(1) obtain h1 where h1: "header_line h p = Inr h1"
    and rest: "header_lines h1 ps = Inr h'"
    by (auto split: sum.splits)
  from h1 Cons.prems have "attributes h1 = attributes h \<and> \<not> attr_line h1"
    by (intro header_line_key) auto
  with Cons.IH [OF rest] Cons.prems(3) show ?case by simp
qed

lemma last_attribute_line:
  assumes "header_lines h0 (pre @ [b, l] @ post) = Inr h"
    and "strip b = []" and "strip l \<noteq> []" and "\<forall>p\<in>set post. strip p \<noteq> []"
  shows "attributes h = Some (split (strip l))"
proof -
  from assms(1) obtain h1 where h1: "header_lines h0 pre = Inr h1"
    and r1: "header_lines h1 ([b, l] @ post) = Inr h"
    by (auto simp: header_lines_append split: sum.splits)
  define h2 where "h2 = h1\<lparr>metadata := metadata h1 @ [b], attr_line := True\<rparr>"
  define h3 where "h3 = h2\<lparr>metadata := metadata h2 @ [l],
    attributes := Some (split (strip l)), attr_line := False\<rparr>"
  have "header_line h1 b = Inr h2"
    unfolding h2_def using assms(2) by (rule header_line_blank)
  moreover have "header_line h2 l = Inr h3"
    unfolding h3_def using assms(3) by (rule header_line_attributes) (simp add: h2_def)
  ultimately have "header_lines h3 post = Inr h"
    using r1 by simp
  then have "attributes h = attributes h3"
    using assms(4) by (auto dest!: header_lines_keys simp: h3_def)
  then show ?thesis by (simp add: h3_def)
qed

lemma key_value_gridsize:
  "key_value h parts = Inr h' \<Longrightarrow> take 1 parts \<noteq> [''number_of_gridpoints''] \<Longrightarrow>
     gridsize h' = gridsize h"
  by (auto simp: key_value_def split: list.splits if_splits sum.splits)

lemma header_line_gridsize:
  "header_line h line = Inr h' \<Longrightarrow> take 1 (split (strip line)) \<noteq> [''number_of_gridpoints''] \<Longrightarrow>
     gridsize h' = gridsize h"
  by (auto simp: header_line_def Let_def split: if_splits dest: key_value_gridsize)

lemma header_lines_gridsize:
  "header_lines h ls = Inr h' \<Longrightarrow>
     \<forall>l\<in>set ls. take 1 (split (strip l)) \<noteq> [''number_of_gridpoints''] \<Longrightarrow>
     gridsize h' = gridsize h"
proof (induction ls arbitrary: h)
  case Nil
  then show ?case by simp
next
  case (Cons l ls)
  from Cons.prems(1) obtain h1 where h1: "header_line h l = Inr h1"
    and rest: "header_lines h1 ls = Inr h'"
    by (auto split: sum.splits)
  from h1 Cons.prems(2) have "gridsize h1 = gridsize h"
    by (intro header_line_gridsize) auto
  with Cons.IH [OF rest] Cons.prems(2) show ?case by simp
qed

lemma split_run_Nil:
  "split_run run s = [] \<longleftrightarrow> run = [] \<and> (\<forall>c\<in>set s. is_space c)"
  by (induction s arbitrary: run) auto

lemma strip_has_token: "strip s \<noteq> [] \<Longrightarrow> split (strip s) \<noteq> []"
proof -
  assume ne: "strip s \<noteq> []"
  define t where "t = rev (dropWhile is_space s)"
  from ne have "dropWhile is_space t \<noteq> []"
    by (simp add: strip_def t_def)
  then have "\<not> is_space (hd (dropWhile is_space t))" and "hd (dropWhile is_space t) \<in> set (strip s)"
    by (simp_all add: hd_dropWhile strip_def t_def)
  then show ?thesis
    by (auto simp: split_def split_run_Nil)
qed

lemma header_line_attributes_nonempty:
  "header_line h line = Inr h' \<Longrightarrow> attributes h \<noteq> Some [] \<Longrightarrow> attributes h' \<noteq> Some []"
  by (auto simp: header_line_def Let_def split: if_splits dest: key_value_frame(3) strip_has_token)

lemma header_lines_attributes_nonempty:
  "header_lines h ls = Inr h' \<Longrightarrow> attributes h \<noteq> Some [] \<Longrightarrow> attributes h' \<noteq> Some []"
  by (induction ls arbitrary: h) (auto split: sum.splits dest: header_line_attributes_nonempty)

subsection \<open>Packaging and sanity checks\<close>

lemma area_check_same: "area_check d = Inr d' \<Longrightarrow> d' = d"
  by (auto simp: area_check_def split: sum.splits if_splits)

lemma sanity_checks_same: "sanity_checks u h rawdata d = Inr d' \<Longrightarrow> d' = d"
  by (auto simp: sanity_checks_def split: prod.splits option.splits sum.splits if_splits
      dest: area_check_same)

lemma load_build_data:
  "load_icgem_gdf u f = Inr d \<Longrightarrow>
     \<exists>h rawdata. build_data f = Inr (h, rawdata, d) \<and> sanity_checks u h rawdata d = Inr d"
  by (auto simp: load_icgem_gdf_def split: sum.splits prod.splits dest: sanity_checks_same)

lemma build_dataD:
  assumes "build_data f = Inr (h, rawdata, d)"
  obtains body attrs d1 where "read_header header0 f = Inr (h, body)"
    and "loadtxt body = Inr rawdata" and "attributes h = Some attrs"
    and "package (data0 h) (zip attrs rawdata) (shape h) = Inr d1"
    and "add_height d1 (height h) (gridsize h) = Inr d"
  using assms
  by (auto simp: build_data_def split: sum.splits prod.splits option.splits)

lemma sanity_checks_shape_size:
  "sanity_checks u h rawdata d = Inr d' \<Longrightarrow>
     \<exists>a b. shape h = (Some a, Some b) \<and> gridsize h = Some (a * b)"
  by (auto simp: sanity_checks_def split: prod.splits option.splits if_splits)

lemma sanity_checks_mismatch:
  "shape h = (Some a, Some b) \<Longrightarrow> gridsize h = Some n \<Longrightarrow> a * b \<noteq> n \<Longrightarrow>
     sanity_checks u h rawdata d = Inl (AssertionError (ShapeSizeMismatch (a, b) n))"
  by (simp add: sanity_checks_def)

lemma sanity_checks_no_size:
  "shape h = (Some a, Some b) \<Longrightarrow> gridsize h = None \<Longrightarrow>
     sanity_checks u h rawdata d = Inl (AssertionError CouldntReadSize)"
  by (simp add: sanity_checks_def)




lemma add_height_other:
  "add_height d1 hgt n = Inr d \<Longrightarrow> hgt = None \<or> k \<noteq> ''h_over_ellipsoid'' \<Longrightarrow>
     map_of d k = map_of d1 k"
  by (auto simp: add_height_def update_conv' split: option.splits sum.splits)

lemma package_other:
  "package d zs sh = Inr d' \<Longrightarrow> k \<notin> fst ` set zs \<Longrightarrow> map_of d' k = map_of d k"
  by (induction zs arbitrary: d) (auto simp: update_conv' split: sum.splits)

lemma package_last:
  "package d (pre @ (k, v) # post) sh = Inr d' \<Longrightarrow> k \<notin> fst ` set post \<Longrightarrow>
     \<exists>col. flipped v sh = Inr col \<and> map_of d' k = Some (Column col)"
proof (induction pre arbitrary: d)
  case Nil
  then show ?case
    by (auto simp: update_conv' split: sum.splits dest!: package_other)
next
  case (Cons z pre)
  then show ?case
    by (cases z) (auto split: sum.splits)
qed

lemma package_nth:
  assumes "package d zs sh = Inr d'" and "i < length zs"
    and "fst (zs ! i) \<notin> fst ` set (drop (Suc i) zs)"
  shows "\<exists>col. flipped (snd (zs ! i)) sh = Inr col \<and> map_of d' (fst (zs ! i)) = Some (Column col)"
proof -
  from assms(2) have "zs = take i zs @ (fst (zs ! i), snd (zs ! i)) # drop (Suc i) zs"
    by (simp add: id_take_nth_drop)
  with assms(1) have "package d (take i zs @ (fst (zs ! i), snd (zs ! i)) # drop (Suc i) zs) sh = Inr d'"
    by simp
  then show ?thesis using assms(3) by (rule package_last)
qed

lemma package_shape:
  "package d zs sh = Inr d' \<Longrightarrow> zs \<noteq> [] \<Longrightarrow> \<exists>a b. sh = (Some a, Some b)"
  by (cases zs) (auto simp: flipped_def reshape_def split: sum.splits prod.splits option.splits)

lemma loadtxt_rows_nonempty:
  "loadtxt_rows body = Inr rows \<Longrightarrow> [] \<notin> set rows"
  by (induction body arbitrary: rows) (auto split: sum.splits if_splits)

lemma loadtxt_nonempty: "loadtxt body = Inr rawdata \<Longrightarrow> rawdata \<noteq> []"
proof -
  assume a: "loadtxt body = Inr rawdata"
  show ?thesis
  proof (cases "loadtxt_rows body")
    case (Inl e)
    with a show ?thesis by (simp add: loadtxt_def)
  next
    case (Inr rows)
    show ?thesis
    proof (cases "rows = []")
      case True
      with a Inr show ?thesis by (auto simp: loadtxt_def)
    next
      case False
      then have "hd rows \<in> set rows" by simp
      with loadtxt_rows_nonempty [OF Inr] have "hd rows \<noteq> []" by auto
      with a Inr False show ?thesis
        by (auto simp: loadtxt_def unpack_def split: if_splits)
    qed
  qed
qed

lemma map_fst_zip_length: "map fst (zip xs ys) = take (length ys) xs"
  by (simp add: map_fst_zip_take min_def)


lemma build_data_shape:
  assumes "build_data f = Inr (h, rawdata, d)"
  shows "\<exists>a b. shape h = (Some a, Some b)"
proof -
  from assms obtain body attrs d1 where rh: "read_header header0 f = Inr (h, body)"
    and lt: "loadtxt body = Inr rawdata" and at: "attributes h = Some attrs"
    and pk: "package (data0 h) (zip attrs rawdata) (shape h) = Inr d1"
    by (rule build_dataD)
  from rh have "header_lines header0 (takeWhile (\<lambda>l. \<not> is_end_of_head l) f) = Inr h"
    by (auto dest: read_header_header_lines)
  then have "attributes h \<noteq> Some []"
    by (rule header_lines_attributes_nonempty) (simp add: header0_def)
  with at have "attrs \<noteq> []" by auto
  moreover from lt have "rawdata \<noteq> []" by (rule loadtxt_nonempty)
  ultimately have "zip attrs rawdata \<noteq> []"
    by (cases attrs; cases rawdata) simp_all
  with pk show ?thesis by (rule package_shape)
qed

lemma sanity_checks_all_columns:
  "sanity_checks (Bound None) h rawdata d = Inr d' \<Longrightarrow> attributes h = Some attrs \<Longrightarrow>
     length attrs = length rawdata"
  by (auto simp: sanity_checks_def select_columns_def
      split: prod.splits option.splits if_splits)

subsection \<open>Reshaping\<close>

lemma rows_of_Suc: "rows_of (Suc r) c v = take c v # rows_of r c (drop c v)"
proof -
  have "[0..<Suc r] = 0 # map Suc [0..<r]"
    by (simp add: upt_conv_Cons map_Suc_upt del: upt_Suc)
  then show ?thesis
    by (simp add: rows_of_def comp_def add.commute del: upt_Suc)
qed

lemma rows_of_concat:
  "\<forall>x\<in>set rs. length x = c \<Longrightarrow> rows_of (length rs) c (concat rs) = rs"
proof (induction rs)
  case Nil
  then show ?case by (simp add: rows_of_def)
next
  case (Cons x rs)
  then show ?case by (simp add: rows_of_Suc)
qed

lemma length_rows_of: "length (rows_of r c v) = r"
  by (simp add: rows_of_def)

lemma rows_of_row_length:
  assumes "r * c = length v" and "x \<in> set (rows_of r c v)"
  shows "length x = c"
proof -
  from assms(2) obtain i where i: "i < r" and x: "x = take c (drop (i * c) v)"
    by (auto simp: rows_of_def)
  from i have "Suc i * c \<le> r * c"
    by (intro mult_le_mono1) simp
  with assms(1) have "i * c + c \<le> length v" by simp
  with x show ?thesis by simp
qed

lemma exact_division:
  assumes "0 < b" and "int n mod b = 0"
  shows "nat (int n div b) * nat b = n"
proof -
  from assms(2) have "b dvd int n" by (simp add: mod_eq_0_iff_dvd)
  then have "int n div b * b = int n" by simp
  moreover from assms(1) have "0 \<le> int n div b" by (simp add: pos_imp_zdiv_nonneg_iff)
  ultimately show ?thesis
    using assms(1) by (metis less_imp_le nat_int nat_mult_distrib)
qed

lemma reshape_cases:
  assumes "reshape (v :: 'a list) sh = Inr rows"
  shows "\<exists>r c. r * c = length v \<and> rows = rows_of r c v \<and>
    (\<forall>w :: 'a list. length w = length v \<longrightarrow> reshape w sh = Inr (rows_of r c w))"
proof -
  from assms obtain a b where sh: "sh = (Some a, Some b)"
    by (auto simp: reshape_def split: prod.splits option.splits)
  let ?n = "int (length v)"
  consider (both) "a < 0" "b < 0" | (fst) "a < 0" "0 \<le> b" | (snd) "0 \<le> a" "b < 0"
    | (none) "0 \<le> a" "0 \<le> b"
    by linarith
  then show ?thesis
  proof cases
    case both
    with assms sh show ?thesis by (simp add: reshape_def)
  next
    case fst
    with assms sh have b: "0 < b" "?n mod b = 0"
      and rows: "rows = rows_of (nat (?n div b)) (nat b) v"
      by (auto simp: reshape_def Let_def split: if_splits)
    from b have "nat (?n div b) * nat b = length v"
      by (rule exact_division)
    moreover have "\<forall>w :: 'a list. length w = length v \<longrightarrow>
        reshape w sh = Inr (rows_of (nat (?n div b)) (nat b) w)"
      using fst b sh by (simp add: reshape_def)
    ultimately show ?thesis using rows by blast
  next
    case snd
    with assms sh have a: "0 < a" "?n mod a = 0"
      and rows: "rows = rows_of (nat a) (nat (?n div a)) v"
      by (auto simp: reshape_def Let_def split: if_splits)
    from a have "nat (?n div a) * nat a = length v"
      by (rule exact_division)
    then have "nat a * nat (?n div a) = length v"
      by (simp add: mult.commute)
    moreover have "\<forall>w :: 'a list. length w = length v \<longrightarrow>
        reshape w sh = Inr (rows_of (nat a) (nat (?n div a)) w)"
      using snd a sh by (simp add: reshape_def)
    ultimately show ?thesis using rows by blast
  next
    case none
    with assms sh have ab: "a * b = ?n" and rows: "rows = rows_of (nat a) (nat b) v"
      by (auto simp: reshape_def Let_def split: if_splits)
    from ab none have "nat a * nat b = length v"
      by (metis nat_int nat_mult_distrib)
    moreover have "\<forall>w :: 'a list. length w = length v \<longrightarrow> reshape w sh = Inr (rows_of (nat a) (nat b) w)"
      using none ab sh by (simp add: reshape_def)
    ultimately show ?thesis using rows by blast
  qed
qed

lemma length_concat_uniform:
  "\<forall>x\<in>set rs. length x = c \<Longrightarrow> length (concat rs) = length rs * c"
  by (induction rs) simp_all

lemma reshape_flipped:
  assumes "reshape (v :: 'a list) sh = Inr rows"
  shows "reshape (concat (rev rows)) sh = Inr (rev rows)"
proof -
  from reshape_cases [OF assms] obtain r c where rc: "r * c = length v"
    and rows: "rows = rows_of r c v"
    and others: "\<And>w :: 'a list. length w = length v \<Longrightarrow> reshape w sh = Inr (rows_of r c w)"
    by blast
  have len: "\<forall>x\<in>set (rev rows). length x = c"
    using rc rows by (auto dest: rows_of_row_length)
  then have "length (concat (rev rows)) = length (rev rows) * c"
    by (rule length_concat_uniform)
  then have "length (concat (rev rows)) = r * c"
    by (simp add: rows length_rows_of)
  with rc others have "reshape (concat (rev rows)) sh = Inr (rows_of r c (concat (rev rows)))"
    by simp
  moreover have "rows_of (length (rev rows)) c (concat (rev rows)) = rev rows"
    using len by (rule rows_of_concat)
  ultimately show ?thesis by (simp add: rows length_rows_of)
qed

subsection \<open>The minimal file\<close>

text \<open>With \<open>usecols\<close> bound to \<open>None\<close> the minimal file is read into the grid of
  shape (2, 2) with three columns of length 4, the latitudes from south to north.\<close>

lemma minimal_gdf_usecols_None:
  "load_icgem_gdf (Bound None) minimal_gdf =
     Inr [(''shape'', Shape (Some 2, Some 2)),
          (''area'', Area (map (Some \<circ> Finite) [0, 1, 0, 1])),
          (''metadata'', Metadata (concat (take 9 minimal_gdf))),
          (''latitude'', Column (map Finite [0, 0, 1, 1])),
          (''longitude'', Column (map Finite [0, 1, 0, 1])),
          (''gravity'', Column (map Finite [48 / 5, 19 / 2, 49 / 5, 97 / 10]))]"
  by code_simp

text \<open>Three lines of four values are four data rows of length 3, which do not
  reshape to (2, 2): line 73 raises.\<close>

lemma three_lines_gdf_raises:
  "load_icgem_gdf (Bound None) three_lines_gdf = Inl ValueError"
  "load_icgem_gdf Unbound three_lines_gdf = Inl ValueError"
  by code_simp+

text \<open>
  Claim C1. On the minimal file of the scenario the reader is to return the record
  of shape (2, 2). As the module stands, \<open>usecols\<close> is unbound, and the call raises
  \<open>NameError\<close> at line 84 instead of returning.
\<close>

theorem minimal_gdf_raises_NameError:
  "load_icgem_gdf Unbound minimal_gdf = Inl (NameError ''usecols'')"
  by code_simp

subsection \<open>The header text\<close>

text \<open>
  Claim C2, as amended. Header reading stops at the first line whose stripped
  content begins with \<open>end_of_head\<close>: the body is what follows that line. The
  terminating line is not appended to the header text; the header text is the
  concatenation, in order and verbatim, of the lines in front of it.
\<close>

theorem header_text_before_end_of_head:
  assumes "read_header header0 f = Inr (h, body)"
  shows "metadata h = takeWhile (\<lambda>l. \<not> is_end_of_head l) f
    \<and> body = drop 1 (dropWhile (\<lambda>l. \<not> is_end_of_head l) f)
    \<and> header_text f = Inr (concat (takeWhile (\<lambda>l. \<not> is_end_of_head l) f))"
proof -
  from assms have hl: "header_lines header0 (takeWhile (\<lambda>l. \<not> is_end_of_head l) f) = Inr h"
    and body: "body = drop 1 (dropWhile (\<lambda>l. \<not> is_end_of_head l) f)"
    by (auto dest: read_header_header_lines)
  from hl have "metadata h = metadata header0 @ takeWhile (\<lambda>l. \<not> is_end_of_head l) f"
    by (rule header_lines_metadata)
  then have "metadata h = takeWhile (\<lambda>l. \<not> is_end_of_head l) f"
    by (simp add: header0_def)
  with body assms show ?thesis by (simp add: header_text_def)
qed

lemma minimal_gdf_header:
  "read_header header0 minimal_gdf = Inr (minimal_header, drop 10 minimal_gdf)"
  by code_simp

theorem header_text_before_end_of_head_witness:
  "read_header header0 minimal_gdf = Inr (minimal_header, drop 10 minimal_gdf)
   \<and> metadata minimal_header = take 9 minimal_gdf
   \<and> header_text minimal_gdf = Inr (concat (take 9 minimal_gdf))"
proof -
  have "takeWhile (\<lambda>l. \<not> is_end_of_head l) minimal_gdf = take 9 minimal_gdf"
    by code_simp
  with header_text_before_end_of_head [OF minimal_gdf_header] minimal_gdf_header
  show ?thesis by simp
qed


text \<open>
  Claim C2 as stated fails: the loop leaves at the \<open>break\<close> of line 36, in front of
  the \<open>append\<close> of line 37, so the \<open>end_of_head\<close> line is not in the header text.
\<close>

theorem short_gdf_header_text:
  "header_text short_gdf = Inr ''latitude_parallels 2\<newline>''
   \<and> header_text short_gdf \<noteq> Inr (''latitude_parallels 2\<newline>'' @ ''end_of_head\<newline>'')"
  by code_simp

subsection \<open>Shape and size\<close>

text \<open>
  Claim C3, as amended. Whenever a record is returned, the product of the two
  shape dimensions is the declared number of grid points. Whenever lines 24 to 75
  raise nothing (the header parses, the body loads, every column reshapes) and the
  product differs from the declared number, the call fails with the assertion of
  line 81, which names the shape and the size.
\<close>

theorem shape_size_checked:
  "(load_icgem_gdf u f = Inr d \<longrightarrow>
      (\<exists>h body a b. read_header header0 f = Inr (h, body) \<and> shape h = (Some a, Some b)
         \<and> gridsize h = Some (a * b)))
   \<and> (build_data f' = Inr (h', rawdata, d') \<and> shape h' = (Some a', Some b')
        \<and> gridsize h' = Some n \<and> a' * b' \<noteq> n \<longrightarrow>
      load_icgem_gdf u' f' = Inl (AssertionError (ShapeSizeMismatch (a', b') n)))"
proof (intro conjI impI)
  assume "load_icgem_gdf u f = Inr d"
  then obtain h rawdata where b: "build_data f = Inr (h, rawdata, d)"
    and s: "sanity_checks u h rawdata d = Inr d"
    by (auto dest: load_build_data)
  from b obtain body where "read_header header0 f = Inr (h, body)"
    by (rule build_dataD)
  with sanity_checks_shape_size [OF s]
  show "\<exists>h body a b. read_header header0 f = Inr (h, body) \<and> shape h = (Some a, Some b)
         \<and> gridsize h = Some (a * b)"
    by blast
next
  assume "build_data f' = Inr (h', rawdata, d') \<and> shape h' = (Some a', Some b')
        \<and> gridsize h' = Some n \<and> a' * b' \<noteq> n"
  then show "load_icgem_gdf u' f' = Inl (AssertionError (ShapeSizeMismatch (a', b') n))"
    by (simp add: load_icgem_gdf_def sanity_checks_mismatch)
qed


lemma size5_gdf_build_data:
  "build_data size5_gdf =
     Inr (minimal_header\<lparr>metadata := take 9 size5_gdf, gridsize := Some 5\<rparr>, minimal_rawdata,
          [(''shape'', Shape (Some 2, Some 2)),
           (''area'', Area (map (Some \<circ> Finite) [0, 1, 0, 1])),
           (''metadata'', Metadata (concat (take 9 size5_gdf))),
           (''latitude'', Column (map Finite [0, 0, 1, 1])),
           (''longitude'', Column (map Finite [0, 1, 0, 1])),
           (''gravity'', Column (map Finite [48 / 5, 19 / 2, 49 / 5, 97 / 10]))])"
  by code_simp

theorem shape_size_checked_witness:
  "load_icgem_gdf (Bound None) minimal_gdf =
     Inr [(''shape'', Shape (Some 2, Some 2)),
          (''area'', Area (map (Some \<circ> Finite) [0, 1, 0, 1])),
          (''metadata'', Metadata (concat (take 9 minimal_gdf))),
          (''latitude'', Column (map Finite [0, 0, 1, 1])),
          (''longitude'', Column (map Finite [0, 1, 0, 1])),
          (''gravity'', Column (map Finite [48 / 5, 19 / 2, 49 / 5, 97 / 10]))]
   \<and> (\<exists>h body a b. read_header header0 minimal_gdf = Inr (h, body)
         \<and> shape h = (Some a, Some b) \<and> gridsize h = Some (a * b))
   \<and> shape (minimal_header\<lparr>metadata := take 9 size5_gdf, gridsize := Some 5\<rparr>) = (Some 2, Some 2)
   \<and> gridsize (minimal_header\<lparr>metadata := take 9 size5_gdf, gridsize := Some 5\<rparr>) = Some 5
   \<and> (2::int) * 2 \<noteq> 5
   \<and> load_icgem_gdf Unbound size5_gdf = Inl (AssertionError (ShapeSizeMismatch (2, 2) 5))"
proof -
  let ?h = "minimal_header\<lparr>metadata := take 9 size5_gdf, gridsize := Some 5\<rparr>"
  have sh: "shape ?h = (Some 2, Some 2)" and gs: "gridsize ?h = Some 5"
    by (simp_all add: minimal_header_def)
  note inst = shape_size_checked [of "Bound None" minimal_gdf _ size5_gdf ?h minimal_rawdata _ 2 2 5 Unbound]
  from inst minimal_gdf_usecols_None size5_gdf_build_data sh gs
  show ?thesis by simp
qed


text \<open>
  Claim C3 as stated fails: with a shape of (2, 2), five declared grid points and
  five lines in the body, the \<open>reshape\<close> of line 73 raises \<open>ValueError\<close> before the
  sanity checks are reached.
\<close>

theorem mismatch_gdf_raises_ValueError:
  "map_sum id (\<lambda>(h, body). (shape h, gridsize h)) (read_header header0 mismatch_gdf)
     = Inr ((Some 2, Some 2), Some 5)
   \<and> load_icgem_gdf Unbound mismatch_gdf = Inl ValueError
   \<and> load_icgem_gdf (Bound None) mismatch_gdf = Inl ValueError"
  by code_simp

subsection \<open>Attribute lines\<close>

text \<open>
  Claim C6. A blank header line switches the loop into the mode that expects the
  attribute line and changes nothing else but the header text. A non-blank header
  line read in that mode becomes the list of attribute names, split at whitespace,
  whatever the list was before, and clears the mode. Hence, when the last blank
  line of the header is followed by a non-blank line, the attribute names are
  those of that line.
\<close>

theorem blank_line_arms_attribute_line:
  "(strip line = [] \<longrightarrow>
      header_line h line = Inr (h\<lparr>metadata := metadata h @ [line], attr_line := True\<rparr>))
   \<and> (strip line' \<noteq> [] \<and> attr_line h' \<longrightarrow>
      header_line h' line' =
        Inr (h'\<lparr>metadata := metadata h' @ [line'], attributes := Some (split (strip line')),
                 attr_line := False\<rparr>))
   \<and> (read_header header0 f = Inr (hf, body)
        \<and> takeWhile (\<lambda>l. \<not> is_end_of_head l) f = pre @ [b, l] @ post
        \<and> strip b = [] \<and> strip l \<noteq> [] \<and> (\<forall>p\<in>set post. strip p \<noteq> []) \<longrightarrow>
      attributes hf = Some (split (strip l)))"
proof (intro conjI impI)
  assume "strip line = []"
  then show "header_line h line = Inr (h\<lparr>metadata := metadata h @ [line], attr_line := True\<rparr>)"
    by (rule header_line_blank)
next
  assume "strip line' \<noteq> [] \<and> attr_line h'"
  then show "header_line h' line' =
      Inr (h'\<lparr>metadata := metadata h' @ [line'], attributes := Some (split (strip line')),
               attr_line := False\<rparr>)"
    by (simp add: header_line_attributes)
next
  assume a: "read_header header0 f = Inr (hf, body)
        \<and> takeWhile (\<lambda>l. \<not> is_end_of_head l) f = pre @ [b, l] @ post
        \<and> strip b = [] \<and> strip l \<noteq> [] \<and> (\<forall>p\<in>set post. strip p \<noteq> [])"
  then have "header_lines header0 (pre @ [b, l] @ post) = Inr hf"
    by (auto dest: read_header_header_lines)
  with a show "attributes hf = Some (split (strip l))"
    by (intro last_attribute_line [of header0 pre b l post hf]) simp_all
qed

lemma two_pairs_gdf_header:
  "read_header header0 two_pairs_gdf =
     Inr (\<lparr>metadata = take 7 two_pairs_gdf, shape = (Some 2, None), gridsize = Some 4,
           height = None, attributes = Some [''x'', ''y'', ''z''], attr_line = False,
           area = [None, None, None, None]\<rparr>, [])"
  by code_simp

theorem blank_line_arms_attribute_line_witness:
  "strip ''\<newline>'' = []
   \<and> header_line header0 ''\<newline>'' = Inr (header0\<lparr>metadata := [''\<newline>''], attr_line := True\<rparr>)
   \<and> strip ''x y z\<newline>'' \<noteq> [] \<and> attr_line (header0\<lparr>attributes := Some [''a'', ''b''], attr_line := True\<rparr>)
   \<and> header_line (header0\<lparr>attributes := Some [''a'', ''b''], attr_line := True\<rparr>) ''x y z\<newline>'' =
       Inr (header0\<lparr>metadata := [''x y z\<newline>''], attributes := Some [''x'', ''y'', ''z''],
                    attr_line := False\<rparr>)
   \<and> takeWhile (\<lambda>l. \<not> is_end_of_head l) two_pairs_gdf =
       [''\<newline>'', ''a b\<newline>'', ''latitude_parallels 2\<newline>'', ''\<newline>''] @ [''  \<newline>'', ''x y z\<newline>'']
         @ [''number_of_gridpoints 4\<newline>'']
   \<and> strip ''  \<newline>'' = []
   \<and> strip ''number_of_gridpoints 4\<newline>'' \<noteq> []
   \<and> map_sum id (attributes \<circ> fst) (read_header header0 two_pairs_gdf) = Inr (Some [''x'', ''y'', ''z''])"
proof -
  let ?h' = "header0\<lparr>attributes := Some [''a'', ''b''], attr_line := True\<rparr>"
  have s1: "strip ''\<newline>'' = []" and s2: "strip ''x y z\<newline>'' = ''x y z''" and s3: "strip ''  \<newline>'' = []"
    and s4: "strip ''number_of_gridpoints 4\<newline>'' = ''number_of_gridpoints 4''"
    and sp: "split ''x y z'' = [''x'', ''y'', ''z'']"
    by code_simp+
  have tw: "takeWhile (\<lambda>l. \<not> is_end_of_head l) two_pairs_gdf =
       [''\<newline>'', ''a b\<newline>'', ''latitude_parallels 2\<newline>'', ''\<newline>''] @ [''  \<newline>'', ''x y z\<newline>'']
         @ [''number_of_gridpoints 4\<newline>'']"
    by code_simp
  have md: "metadata header0 = []" by (simp add: header0_def)
  note inst = blank_line_arms_attribute_line [of "''\<newline>''" header0 "''x y z\<newline>''" ?h' two_pairs_gdf _ _
      "[''\<newline>'', ''a b\<newline>'', ''latitude_parallels 2\<newline>'', ''\<newline>'']" "''  \<newline>''" "''x y z\<newline>''"
      "[''number_of_gridpoints 4\<newline>'']"]
  from inst two_pairs_gdf_header tw s1 s2 s3 s4 sp md
  show ?thesis by simp
qed

subsection \<open>A header without the number of grid points\<close>

text \<open>
  Claim C7, as amended. When no header line has \<open>number_of_gridpoints\<close> as its
  first token, the call returns no record. Whenever lines 24 to 75 raise nothing
  (the header parses, the body loads, every column reshapes), the error is the
  assertion of line 79, that the size of the grid could not be read; otherwise it is
  the error of the earlier line.
\<close>

theorem missing_number_of_gridpoints:
  assumes "\<forall>l\<in>set (takeWhile (\<lambda>l. \<not> is_end_of_head l) f).
    take 1 (split (strip l)) \<noteq> [''number_of_gridpoints'']"
  shows "(\<exists>e. load_icgem_gdf u f = Inl e)
    \<and> (build_data f = Inr (h, rawdata, d) \<longrightarrow>
         load_icgem_gdf u f = Inl (AssertionError CouldntReadSize))"
proof -
  have size: "load_icgem_gdf u f = Inl (AssertionError CouldntReadSize)"
    if b: "build_data f = Inr (h, rawdata, d)" for h rawdata d
  proof -
    from b obtain body where "read_header header0 f = Inr (h, body)"
      by (rule build_dataD)
    then have "header_lines header0 (takeWhile (\<lambda>l. \<not> is_end_of_head l) f) = Inr h"
      by (auto dest: read_header_header_lines)
    then have "gridsize h = gridsize header0"
      using assms by (rule header_lines_gridsize)
    then have "gridsize h = None" by (simp add: header0_def)
    moreover from b obtain a b where "shape h = (Some a, Some b)"
      by (auto dest: build_data_shape)
    ultimately have "sanity_checks u h rawdata d = Inl (AssertionError CouldntReadSize)"
      by (simp add: sanity_checks_no_size)
    with b show ?thesis by (simp add: load_icgem_gdf_def)
  qed
  have "\<exists>e. load_icgem_gdf u f = Inl e"
  proof (cases "build_data f")
    case (Inl e)
    then show ?thesis by (simp add: load_icgem_gdf_def)
  next
    case (Inr x)
    then show ?thesis by (cases x) (auto dest: size)
  qed
  with size show ?thesis by blast
qed

lemma no_size_gdf_build_data:
  "build_data no_size_gdf =
     Inr (minimal_header\<lparr>metadata := take 8 no_size_gdf, gridsize := None\<rparr>, minimal_rawdata,
          [(''shape'', Shape (Some 2, Some 2)),
           (''area'', Area (map (Some \<circ> Finite) [0, 1, 0, 1])),
           (''metadata'', Metadata (concat (take 8 no_size_gdf))),
           (''latitude'', Column (map Finite [0, 0, 1, 1])),
           (''longitude'', Column (map Finite [0, 1, 0, 1])),
           (''gravity'', Column (map Finite [48 / 5, 19 / 2, 49 / 5, 97 / 10]))])"
  by code_simp

lemma no_size_gdf_keys:
  "list_all (\<lambda>l. take 1 (split (strip l)) \<noteq> [''number_of_gridpoints''])
     (takeWhile (\<lambda>l. \<not> is_end_of_head l) no_size_gdf)"
  by code_simp

theorem missing_number_of_gridpoints_witness:
  "list_all (\<lambda>l. take 1 (split (strip l)) \<noteq> [''number_of_gridpoints''])
     (takeWhile (\<lambda>l. \<not> is_end_of_head l) no_size_gdf)
   \<and> build_data no_size_gdf =
     Inr (minimal_header\<lparr>metadata := take 8 no_size_gdf, gridsize := None\<rparr>, minimal_rawdata,
          [(''shape'', Shape (Some 2, Some 2)),
           (''area'', Area (map (Some \<circ> Finite) [0, 1, 0, 1])),
           (''metadata'', Metadata (concat (take 8 no_size_gdf))),
           (''latitude'', Column (map Finite [0, 0, 1, 1])),
           (''longitude'', Column (map Finite [0, 1, 0, 1])),
           (''gravity'', Column (map Finite [48 / 5, 19 / 2, 49 / 5, 97 / 10]))])
   \<and> load_icgem_gdf Unbound no_size_gdf = Inl (AssertionError CouldntReadSize)"
proof -
  have keys: "\<forall>l\<in>set (takeWhile (\<lambda>l. \<not> is_end_of_head l) no_size_gdf).
      take 1 (split (strip l)) \<noteq> [''number_of_gridpoints'']"
    using no_size_gdf_keys by (simp add: list_all_iff)
  from missing_number_of_gridpoints [OF keys, of Unbound] no_size_gdf_build_data no_size_gdf_keys
  show ?thesis by simp
qed

text \<open>
  Claim C7 as stated fails: without the \<open>number_of_gridpoints\<close> line and with
  three lines in the body of a grid of shape (2, 2), the \<open>reshape\<close> of line 73
  raises \<open>ValueError\<close>, and the assertion on the size is not reached.
\<close>

theorem no_size_short_gdf_raises_ValueError:
  "list_all (\<lambda>l. take 1 (split (strip l)) \<noteq> [''number_of_gridpoints''])
     (takeWhile (\<lambda>l. \<not> is_end_of_head l) no_size_short_gdf)
   \<and> load_icgem_gdf Unbound no_size_short_gdf = Inl ValueError
   \<and> load_icgem_gdf (Bound None) no_size_short_gdf = Inl ValueError"
  by code_simp

subsection \<open>The height column\<close>





text \<open>With the height \<open>nan\<close> the column holds \<open>nan\<close>, which \<open>==\<close> tells from itself.\<close>

lemma nan_gdf_column:
  "map_sum id (\<lambda>(h, rawdata, d). (height h, map_of d ''h_over_ellipsoid'')) (build_data nan_gdf)
     = Inr (Some NaN, Some (Column [NaN, NaN, NaN, NaN]))"
  "\<not> py_eq NaN NaN"
  by code_simp+

subsection \<open>The stored columns\<close>

text \<open>
  For an attribute that has a data row, whose name is not repeated later among the
  attributes with a data row and is not \<open>h_over_ellipsoid\<close> when the header gives a
  height, the dictionary that lines 68 to 75 build holds the data row reshaped to
  the shape of the grid, with the order of the rows reversed, and flattened.
  Reshaped again, the entry has the rows of the data row in reverse order.
\<close>

lemma stored_column_flipped:
  assumes "build_data f = Inr (h, rawdata, d)" and "attributes h = Some attrs"
    and "i < length attrs" and "i < length rawdata"
    and "attrs ! i \<notin> set (drop (Suc i) (take (length rawdata) attrs))"
    and "height h = None \<or> attrs ! i \<noteq> ''h_over_ellipsoid''"
  shows "\<exists>rows. reshape (rawdata ! i) (shape h) = Inr rows
    \<and> map_of d (attrs ! i) = Some (Column (concat (rev rows)))
    \<and> reshape (concat (rev rows)) (shape h) = Inr (rev rows)"
proof -
  let ?zs = "zip attrs rawdata"
  from assms(1,2) obtain d1 where pk: "package (data0 h) ?zs (shape h) = Inr d1"
    and ah: "add_height d1 (height h) (gridsize h) = Inr d"
    by (auto elim!: build_dataD)
  from assms(3,4) have i: "i < length ?zs" and zi: "?zs ! i = (attrs ! i, rawdata ! i)"
    by simp_all
  have "map fst (drop (Suc i) ?zs) = drop (Suc i) (take (length rawdata) attrs)"
    by (simp add: drop_map [symmetric] map_fst_zip_length)
  then have "fst ` set (drop (Suc i) ?zs) = set (drop (Suc i) (take (length rawdata) attrs))"
    by (metis set_map)
  with assms(5) zi have "fst (?zs ! i) \<notin> fst ` set (drop (Suc i) ?zs)"
    by simp
  from package_nth [OF pk i this] zi obtain col where col: "flipped (rawdata ! i) (shape h) = Inr col"
    and d1: "map_of d1 (attrs ! i) = Some (Column col)"
    by auto
  from col obtain rows where rows: "reshape (rawdata ! i) (shape h) = Inr rows"
    and "col = concat (rev rows)"
    by (auto simp: flipped_def split: sum.splits)
  moreover from ah assms(6) have "map_of d (attrs ! i) = map_of d1 (attrs ! i)"
    by (rule add_height_other)
  moreover note d1 reshape_flipped [OF rows]
  ultimately show ?thesis by auto
qed

text \<open>When the attribute line names \<open>g\<close> twice, the entry \<open>g\<close> holds the column of the
  second data row.\<close>

lemma duplicate_gdf_keeps_last_column:
  "map_sum id (\<lambda>(h, rawdata, d). (attributes h, rawdata, map_of d ''g'')) (build_data duplicate_gdf)
     = Inr (Some [''g'', ''g''], map (map Finite) [[1, 3], [2, 4]],
            Some (Column (map Finite [2, 4])))"
  by code_simp

text \<open>
  Claim C4. The stored column of an attribute is to be its data row reshaped to
  the grid, reversed along the latitude axis and flattened, so that the returned
  columns run from south to north. On the grid of three parallels, line 73 does
  store the latitudes 2, 2, 1, 1, 0, 0 of the file as 0, 0, 1, 1, 2, 2; as the
  module stands, the call then raises \<open>NameError\<close> at line 84 and the columns are
  not returned.
\<close>

theorem bands_gdf_columns_not_returned:
  "map_sum id (fst \<circ> snd) (build_data bands_gdf)
     = Inr (map (map Finite) [[2, 2, 1, 1, 0, 0], [0, 1, 0, 1, 0, 1]])
   \<and> map_sum id (snd \<circ> snd) (build_data bands_gdf)
     = Inr [(''shape'', Shape (Some 3, Some 2)),
            (''area'', Area (map (Some \<circ> Finite) [0, 2, 0, 1])),
            (''metadata'', Metadata (concat (take 9 bands_gdf))),
            (''latitude'', Column (map Finite [0, 0, 1, 1, 2, 2])),
            (''longitude'', Column (map Finite [0, 1, 0, 1, 0, 1]))]
   \<and> load_icgem_gdf Unbound bands_gdf = Inl (NameError ''usecols'')"
  by code_simp

lemma bands_gdf_usecols_None:
  "load_icgem_gdf (Bound None) bands_gdf =
     Inr [(''shape'', Shape (Some 3, Some 2)),
          (''area'', Area (map (Some \<circ> Finite) [0, 2, 0, 1])),
          (''metadata'', Metadata (concat (take 9 bands_gdf))),
          (''latitude'', Column (map Finite [0, 0, 1, 1, 2, 2])),
          (''longitude'', Column (map Finite [0, 1, 0, 1, 0, 1]))]"
  by code_simp

subsection \<open>One namespace for columns and metadata\<close>






subsection \<open>Area bounds and column count\<close>

lemma perturbed_gdf_usecols_None:
  "load_icgem_gdf (Bound None) perturbed_gdf =
     Inl (AssertionError (AreaMismatch (Area (map (Some \<circ> Finite) [1, 1, 0, 1]))
            (map Finite [0, 1, 0, 1])))"
  by code_simp

text \<open>
  Claim C5. A file with latitude and longitude columns whose header bounds differ
  from the bounds of the columns is to fail with the area mismatch of lines 93 to
  95. As the module stands, the call raises \<open>NameError\<close> at line 84 and never
  reaches the comparison.
\<close>

theorem perturbed_gdf_raises_NameError:
  "load_icgem_gdf Unbound perturbed_gdf = Inl (NameError ''usecols'')"
  by code_simp

lemma two_rows_gdf_usecols_None:
  "load_icgem_gdf (Bound None) two_rows_gdf = Inl (AssertionError (AttrColMismatch 3 2))"
  by code_simp

text \<open>
  Claim C8. A file with three attribute names and two data rows is to fail with the
  count mismatch of lines 86 to 88. As the module stands, the call raises
  \<open>NameError\<close> at line 84, two lines before that assertion.
\<close>

theorem two_rows_gdf_raises_NameError:
  "load_icgem_gdf Unbound two_rows_gdf = Inl (NameError ''usecols'')"
  by code_simp

end
